theory Spec2Isabelle
  imports Complex_Main "HOL-Library.AList"
begin

section \<open>Card data (CardData.ts)\<close>

text \<open>
  A position is the object \<^verbatim>\<open>{ x: number, y: number }\<close>. The ledger operations only
  copy and replace positions, they never compute with the coordinates and never
  assign to \<^verbatim>\<open>x\<close> or \<^verbatim>\<open>y\<close> of an existing position object, so positions are
  modelled as values.
\<close>

record point =
  pos_x :: real
  pos_y :: real

text \<open>
  \<^verbatim>\<open>class CardData { id; face; suit; area; position }\<close>. Ids, faces and suits are
  the integers of the layout document; the area is the string the code stores.
\<close>

record CardData =
  card_id :: int
  face :: int
  suit :: int
  area :: string
  position :: point

definition new_CardData :: "int \<Rightarrow> int \<Rightarrow> int \<Rightarrow> string \<Rightarrow> point \<Rightarrow> CardData" where
  "new_CardData i f s a pos =
     \<lparr>card_id = i, face = f, suit = s, area = a, position = pos\<rparr>"

section \<open>The game model (GameModel.ts)\<close>

text \<open>One entry of \<^verbatim>\<open>_history\<close>: the state of a card just before a move.\<close>

record MoveRecord =
  cardId :: int
  oldArea :: string
  oldPos :: point

text \<open>
  \<^verbatim>\<open>_cards\<close> is a JavaScript \<^verbatim>\<open>Map<number, CardData>\<close>: an association list in
  insertion order, read with \<open>map_of\<close> and written with \<open>AList.update\<close>, which
  replaces the value of a key that is present in place and appends a new key at
  the end, as \<^verbatim>\<open>Map.set\<close> does. \<^verbatim>\<open>_history\<close> is an array used as a stack whose top
  is its last element.
\<close>

record GameModel =
  cards :: "(int \<times> CardData) list"
  history :: "MoveRecord list"

definition new_GameModel :: GameModel where
  "new_GameModel = \<lparr>cards = [], history = []\<rparr>"

definition getCardById :: "GameModel \<Rightarrow> int \<Rightarrow> CardData option" where
  "getCardById g k = map_of (cards g) k"

definition getCardsInArea :: "GameModel \<Rightarrow> string \<Rightarrow> CardData list" where
  "getCardsInArea g a = map snd (filter (\<lambda>(k, c). area c = a) (cards g))"

text \<open>
  \<^verbatim>\<open>moveCard(cardId, targetArea, targetPos)\<close>: the returned pair is the boolean result
  and the model after the call. The card object found under the key is mutated in place,
  which is an update of the value stored under that key (\<^verbatim>\<open>loadData\<close> stores every card
  object under one key).
\<close>

definition moveCard :: "int \<Rightarrow> string \<Rightarrow> point \<Rightarrow> GameModel \<Rightarrow> bool \<times> GameModel" where
  "moveCard k targetArea targetPos g =
     (case map_of (cards g) k of
        None \<Rightarrow> (False, g)
      | Some c \<Rightarrow>
          (True,
           g\<lparr>history := history g @
                [\<lparr>cardId = card_id c, oldArea = area c,
                  oldPos = \<lparr>pos_x = pos_x (position c), pos_y = pos_y (position c)\<rparr>\<rparr>],
             cards := AList.update k (c\<lparr>area := targetArea, position := targetPos\<rparr>)
                        (cards g)\<rparr>))"

text \<open>
  \<^verbatim>\<open>undo()\<close>: \<open>None\<close> is the \<^verbatim>\<open>null\<close> result. \<^verbatim>\<open>pop\<close> removes the last element of
  the history before the card is looked up.
\<close>

definition undo :: "GameModel \<Rightarrow> MoveRecord option \<times> GameModel" where
  "undo g =
     (if history g = [] then (None, g)
      else
        let lastRec = last (history g);
            g1 = g\<lparr>history := butlast (history g)\<rparr>
        in (case map_of (cards g1) (cardId lastRec) of
              None \<Rightarrow> (Some lastRec, g1)
            | Some c \<Rightarrow>
                (Some lastRec,
                 g1\<lparr>cards := AList.update (cardId lastRec)
                       (c\<lparr>area := oldArea lastRec, position := oldPos lastRec\<rparr>)
                       (cards g1)\<rparr>)))"

subsection \<open>Loading a layout\<close>

text \<open>
  The layout document \<^verbatim>\<open>jsonData\<close>: \<^verbatim>\<open>Playfield\<close> and \<^verbatim>\<open>Stack\<close> are arrays of
  entries with \<^verbatim>\<open>CardFace\<close>, \<^verbatim>\<open>CardSuit\<close> and \<^verbatim>\<open>Position\<close>. A list that is absent
  from the document reads as \<^verbatim>\<open>undefined\<close>, which is \<open>None\<close> here.
\<close>

record Item =
  CardFace :: int
  CardSuit :: int
  Position :: point

record Layout =
  Playfield :: "Item list option"
  Stack :: "Item list option"

text \<open>
  Calling \<^verbatim>\<open>forEach\<close> on \<^verbatim>\<open>undefined\<close> throws a \<^verbatim>\<open>TypeError\<close>; so does reading a
  property of \<^verbatim>\<open>null\<close> or \<^verbatim>\<open>undefined\<close>.
\<close>

datatype error = TypeError

text \<open>
  \<^verbatim>\<open>Array.prototype.forEach\<close> with the callback's effect on the enclosing state made
  explicit: the callback receives the element and its index, the state is threaded
  from left to right.
\<close>

fun forEach :: "('a \<Rightarrow> int \<Rightarrow> 's \<Rightarrow> 's) \<Rightarrow> 'a list \<Rightarrow> int \<Rightarrow> 's \<Rightarrow> 's" where
  "forEach f [] index s = s"
| "forEach f (item # items) index s = forEach f items (index + 1) (f item index s)"

text \<open>
  The two callbacks of \<^verbatim>\<open>loadData\<close>. Their state is the local \<^verbatim>\<open>idCounter\<close> and the
  card map; \<^verbatim>\<open>idCounter++\<close> yields the old value and increments.
\<close>

definition playfield_callback ::
  "Item \<Rightarrow> int \<Rightarrow> int \<times> (int \<times> CardData) list \<Rightarrow> int \<times> (int \<times> CardData) list" where
  "playfield_callback item index st =
     (case st of (idCounter, cs) \<Rightarrow>
        let c = new_CardData idCounter (CardFace item) (CardSuit item) ''main'' (Position item)
        in (idCounter + 1, AList.update (card_id c) c cs))"

definition stack_callback ::
  "int \<Rightarrow> Item \<Rightarrow> int \<Rightarrow> int \<times> (int \<times> CardData) list \<Rightarrow> int \<times> (int \<times> CardData) list" where
  "stack_callback stackLength item index st =
     (case st of (idCounter, cs) \<Rightarrow>
        let a = (if index = stackLength - 1 then ''discard'' else ''stock'');
            c = new_CardData idCounter (CardFace item) (CardSuit item) a (Position item)
        in (idCounter + 1, AList.update (card_id c) c cs))"

text \<open>
  \<^verbatim>\<open>loadData(jsonData)\<close>: the first component is the exception thrown, if any; the
  second is the model as the call leaves it, also when it throws part-way.
\<close>

definition loadData :: "Layout \<Rightarrow> GameModel \<Rightarrow> error option \<times> GameModel" where
  "loadData jsonData g =
     (case Playfield jsonData of
        None \<Rightarrow> (Some TypeError, g)
      | Some playfield \<Rightarrow>
          (case forEach playfield_callback playfield 0 (0, cards g) of
             (idCounter, cs) \<Rightarrow>
               (case Stack jsonData of
                  None \<Rightarrow> (Some TypeError, g\<lparr>cards := cs\<rparr>)
                | Some stack \<Rightarrow>
                    (case forEach (stack_callback (int (length stack))) stack 0 (idCounter, cs) of
                       (idCounter', cs') \<Rightarrow> (None, g\<lparr>cards := cs'\<rparr>)))))"

subsection \<open>Sequences of calls\<close>

text \<open>
  A client of the model calls its two mutators one after the other. \<open>moveCards\<close> runs
  a list of move requests and collects the results; \<open>undos n\<close> calls \<^verbatim>\<open>undo()\<close> \<open>n\<close>
  times and collects the results; \<open>run\<close> runs any mix of both.
\<close>

fun moveCards :: "(int \<times> string \<times> point) list \<Rightarrow> GameModel \<Rightarrow> bool list \<times> GameModel" where
  "moveCards [] g = ([], g)"
| "moveCards ((k, targetArea, targetPos) # reqs) g =
     (case moveCard k targetArea targetPos g of
        (ok, g1) \<Rightarrow> (case moveCards reqs g1 of (oks, g2) \<Rightarrow> (ok # oks, g2)))"

fun undos :: "nat \<Rightarrow> GameModel \<Rightarrow> MoveRecord option list \<times> GameModel" where
  "undos 0 g = ([], g)"
| "undos (Suc n) g =
     (case undo g of
        (r, g1) \<Rightarrow> (case undos n g1 of (rs, g2) \<Rightarrow> (r # rs, g2)))"

datatype call = MoveCard int string point | Undo

fun run :: "call list \<Rightarrow> GameModel \<Rightarrow> GameModel" where
  "run [] g = g"
| "run (MoveCard k targetArea targetPos # calls) g =
     run calls (snd (moveCard k targetArea targetPos g))"
| "run (Undo # calls) g = run calls (snd (undo g))"

text \<open>
  Every key of the card map is the id of the card stored under it: \<^verbatim>\<open>loadData\<close> is the
  only writer of new keys and stores each card under \<^verbatim>\<open>card.id\<close>.
\<close>

definition keys_are_ids :: "GameModel \<Rightarrow> bool" where
  "keys_are_ids g = list_all (\<lambda>(k, c). card_id c = k) (cards g)"

section \<open>The controller (GameController.ts)\<close>

text \<open>
  The part of the scene the move rules read. A node is known by its identity;
  \<open>cardViewOf\<close> is \<^verbatim>\<open>node.getComponent(CardView)\<close>, given as the \<^verbatim>\<open>cardId\<close> of the
  component, \<open>None\<close> when the node has no such component. The three area nodes are
  given by their \<^verbatim>\<open>children\<close> arrays, in sibling order; \<^verbatim>\<open>_cardViewMap\<close> maps a card
  id to the node of its view. Node geometry is read by \<^verbatim>\<open>_isCovered\<close> only, which
  is a parameter below, and is left out.
\<close>

type_synonym node = nat

record GameController =
  model :: GameModel
  cardViewOf :: "node \<Rightarrow> int option"
  mainCardArea :: "node list"
  stockPile :: "node list"
  discardPile :: "node list"
  cardViewMap :: "int \<Rightarrow> node option"

datatype area_node = MainCardArea | StockPile | DiscardPile

text \<open>
  \<^verbatim>\<open>node.parent\<close>, as far as the controller compares it: one of the three area nodes,
  or another value. A node has one parent, so it is a child of at most one area node.
\<close>

definition parent :: "GameController \<Rightarrow> node \<Rightarrow> area_node option" where
  "parent gc n =
     (if n \<in> set (discardPile gc) then Some DiscardPile
      else if n \<in> set (stockPile gc) then Some StockPile
      else if n \<in> set (mainCardArea gc) then Some MainCardArea
      else None)"

text \<open>
  \<^verbatim>\<open>node.removeFromParent(); node.setParent(this.discardPile)\<close>: the node leaves the
  children of its parent and becomes the last child of the discard pile.
\<close>

definition setParent_discardPile :: "node \<Rightarrow> GameController \<Rightarrow> GameController" where
  "setParent_discardPile n gc =
     gc\<lparr>mainCardArea := removeAll n (mainCardArea gc),
        stockPile := removeAll n (stockPile gc),
        discardPile := removeAll n (discardPile gc) @ [n]\<rparr>"

text \<open>
  \<^verbatim>\<open>isMatch(cardId)\<close>. \<open>Inl TypeError\<close> is the exception of \<^verbatim>\<open>topNode.cardId\<close> when the
  top node has no \<^verbatim>\<open>CardView\<close>, and of \<^verbatim>\<open>getCardById(...).face\<close> when the id of the
  top view is not in the model.
\<close>

definition isMatch :: "GameController \<Rightarrow> int \<Rightarrow> error + bool" where
  "isMatch gc k =
     (let discardChildren = discardPile gc in
      if length discardChildren = 0 then Inr False
      else
        (case cardViewOf gc (discardChildren ! (length discardChildren - 1)) of
           None \<Rightarrow> Inl TypeError
         | Some topId \<Rightarrow>
             (case getCardById (model gc) topId of
                None \<Rightarrow> Inl TypeError
              | Some topCard \<Rightarrow>
                  (case getCardById (model gc) k of
                     None \<Rightarrow> Inr False
                   | Some currentCard \<Rightarrow> Inr (\<bar>face currentCard - face topCard\<bar> = 1)))))"

text \<open>\<^verbatim>\<open>_moveCardToDiscard(cardId)\<close>.\<close>

definition moveCardToDiscard :: "int \<Rightarrow> GameController \<Rightarrow> GameController" where
  "moveCardToDiscard k gc =
     (let targetPos = \<lparr>pos_x = 0, pos_y = 0\<rparr> in
      case moveCard k ''discard'' targetPos (model gc) of
        (success, m) \<Rightarrow>
          let gc1 = gc\<lparr>model := m\<rparr> in
          if success then
            (case cardViewMap gc1 k of
               None \<Rightarrow> gc1
             | Some n \<Rightarrow> setParent_discardPile n gc1)
          else gc1)"

text \<open>
  \<^verbatim>\<open>_onCardClick(event)\<close> for the clicked node \<^verbatim>\<open>event.currentTarget\<close>. The occlusion
  test \<^verbatim>\<open>_isCovered\<close> depends on bounding boxes of the presentation layer and is the
  parameter \<open>isCovered\<close>.
\<close>

definition onCardClick ::
  "(node \<Rightarrow> bool) \<Rightarrow> node \<Rightarrow> GameController \<Rightarrow> error + GameController" where
  "onCardClick isCovered cardNode gc =
     (case cardViewOf gc cardNode of
        None \<Rightarrow> Inr gc
      | Some k \<Rightarrow>
          if isCovered cardNode then Inr gc
          else if parent gc cardNode = Some DiscardPile then Inr gc
          else if parent gc cardNode = Some StockPile then Inr (moveCardToDiscard k gc)
          else if parent gc cardNode = Some MainCardArea then
            (case isMatch gc k of
               Inl e \<Rightarrow> Inl e
             | Inr matches \<Rightarrow> if matches then Inr (moveCardToDiscard k gc) else Inr gc)
          else Inr gc)"

text \<open>
  The card on top of the discard pile: the card of the last child of the discard pile
  node, when that child has a view whose id is in the model.
\<close>

definition topDiscardCard :: "GameController \<Rightarrow> CardData option" where
  "topDiscardCard gc =
     (if discardPile gc = [] then None
      else (case cardViewOf gc (last (discardPile gc)) of
              None \<Rightarrow> None
            | Some topId \<Rightarrow> getCardById (model gc) topId))"

text \<open>The area node that shows the cards of an area, \<^verbatim>\<open>_getNodeForArea\<close>.\<close>

definition getNodeForArea :: "string \<Rightarrow> area_node option" where
  "getNodeForArea a =
     (if a = ''main'' then Some MainCardArea
      else if a = ''stock'' then Some StockPile
      else if a = ''discard'' then Some DiscardPile
      else None)"

section \<open>Notions used in the statements\<close>

text \<open>The part of the ledger that stays: every key with the id, face and suit stored under it.\<close>

definition identities :: "GameModel \<Rightarrow> (int \<times> int \<times> int \<times> int) list" where
  "identities g = map (\<lambda>(k, c). (k, card_id c, face c, suit c)) (cards g)"

text \<open>
  A small game used to exercise the statements: one card on the table, one in the
  stock and one on the discard pile.
\<close>

definition example_layout :: Layout where
  "example_layout =
     \<lparr>Playfield = Some [\<lparr>CardFace = 3, CardSuit = 0, Position = \<lparr>pos_x = 10, pos_y = 20\<rparr>\<rparr>],
      Stack = Some [\<lparr>CardFace = 7, CardSuit = 1, Position = \<lparr>pos_x = 30, pos_y = 0\<rparr>\<rparr>,
                    \<lparr>CardFace = 8, CardSuit = 2, Position = \<lparr>pos_x = 50, pos_y = 0\<rparr>\<rparr>]\<rparr>"

definition example_model :: GameModel where
  "example_model =
     \<lparr>cards =
        [(0, \<lparr>card_id = 0, face = 3, suit = 0, area = ''main'',
               position = \<lparr>pos_x = 10, pos_y = 20\<rparr>\<rparr>),
         (1, \<lparr>card_id = 1, face = 7, suit = 1, area = ''stock'',
               position = \<lparr>pos_x = 30, pos_y = 0\<rparr>\<rparr>),
         (2, \<lparr>card_id = 2, face = 8, suit = 2, area = ''discard'',
               position = \<lparr>pos_x = 50, pos_y = 0\<rparr>\<rparr>)],
      history = []\<rparr>"

text \<open>
  The entry that \<^verbatim>\<open>loadData\<close> makes for the \<open>i\<close>th element of \<^verbatim>\<open>Playfield\<close>, and for the
  \<open>j\<close>th element of \<^verbatim>\<open>Stack\<close> when \<open>m\<close> cards came before the stack.
\<close>

definition main_card :: "Item list \<Rightarrow> nat \<Rightarrow> int \<times> CardData" where
  "main_card ms i =
     (int i,
      \<lparr>card_id = int i, face = CardFace (ms ! i), suit = CardSuit (ms ! i),
        area = ''main'', position = Position (ms ! i)\<rparr>)"

definition stack_card :: "nat \<Rightarrow> Item list \<Rightarrow> nat \<Rightarrow> int \<times> CardData" where
  "stack_card m ss j =
     (int (m + j),
      \<lparr>card_id = int (m + j), face = CardFace (ss ! j), suit = CardSuit (ss ! j),
        area = (if j = length ss - 1 then ''discard'' else ''stock''),
        position = Position (ss ! j)\<rparr>)"

definition origin :: point where
  "origin = \<lparr>pos_x = 0, pos_y = 0\<rparr>"

text \<open>
  The scene of the small game after its cards are created: node \<open>i\<close> shows card \<open>i\<close>
  and sits under the node of the card's area.
\<close>

definition example_controller :: GameController where
  "example_controller =
     \<lparr>model = example_model,
      cardViewOf = (\<lambda>n. if n < 3 then Some (int n) else None),
      mainCardArea = [0],
      stockPile = [1],
      discardPile = [2],
      cardViewMap = (\<lambda>k. if 0 \<le> k \<and> k < 3 then Some (nat k) else None)\<rparr>"

text \<open>
  A game of two cards: card 0 on the table with face \<open>f\<close>, card 1 on the discard pile
  with face \<open>t\<close>.
\<close>

definition two_card_game :: "int \<Rightarrow> int \<Rightarrow> GameController" where
  "two_card_game f t =
     \<lparr>model =
        \<lparr>cards =
           [(0, \<lparr>card_id = 0, face = f, suit = 0, area = ''main'', position = origin\<rparr>),
            (1, \<lparr>card_id = 1, face = t, suit = 1, area = ''discard'', position = origin\<rparr>)],
         history = []\<rparr>,
      cardViewOf = (\<lambda>n. if n < 2 then Some (int n) else None),
      mainCardArea = [0],
      stockPile = [],
      discardPile = [1],
      cardViewMap = (\<lambda>k. if 0 \<le> k \<and> k < 2 then Some (nat k) else None)\<rparr>"

section \<open>Properties of moveCard\<close>

lemma getCardById_moveCard:
  "getCardById g k = Some c \<Longrightarrow>
   getCardById (snd (moveCard k a p g)) k' =
     (if k' = k then Some (c\<lparr>area := a, position := p\<rparr>) else getCardById g k')"
  by (simp add: moveCard_def getCardById_def update_conv')

lemma moveCard_ok_iff: "fst (moveCard k a p g) \<longleftrightarrow> map_of (cards g) k \<noteq> None"
  by (simp add: moveCard_def split: option.splits)

text \<open>
  C5. Moving a card id that is not in the ledger returns \<open>False\<close> and leaves the whole
  model as it was: no record is pushed on the history and no card changes.
\<close>

theorem moveCard_missing_id:
  "getCardById g k = None \<Longrightarrow> moveCard k targetArea targetPos g = (False, g)"
  by (simp add: moveCard_def getCardById_def)

theorem moveCard_missing_id_witness:
  "getCardById example_model 7 = None \<and>
   moveCard 7 ''discard'' origin example_model = (False, example_model)"
proof -
  have h: "getCardById example_model 7 = None"
    by (simp add: getCardById_def example_model_def)
  show ?thesis
    using h moveCard_missing_id [OF h, of "''discard''" origin] by simp
qed

text \<open>
  C10. \<^verbatim>\<open>moveCard\<close> does not validate the target area: for a card that exists, any string
  and any position are accepted, the call returns \<open>True\<close> and the card then carries
  exactly that string and position. In particular a card can be put in an area that is
  none of \<^verbatim>\<open>'main'\<close>, \<^verbatim>\<open>'stock'\<close>, \<^verbatim>\<open>'discard'\<close>.
\<close>

theorem moveCard_any_zone:
  "getCardById g k = Some c \<Longrightarrow>
     fst (moveCard k targetArea targetPos g) = True \<and>
     getCardById (snd (moveCard k targetArea targetPos g)) k =
       Some (c\<lparr>area := targetArea, position := targetPos\<rparr>) \<and>
     (\<exists>z. z \<notin> {''main'', ''stock'', ''discard''} \<and>
          fst (moveCard k z targetPos g) = True \<and>
          map_option area (getCardById (snd (moveCard k z targetPos g)) k) = Some z)"
proof -
  assume h: "getCardById g k = Some c"
  have 1: "fst (moveCard k z p g) = True" for z p
    using h by (simp add: moveCard_def getCardById_def)
  have 2: "getCardById (snd (moveCard k z p g)) k = Some (c\<lparr>area := z, position := p\<rparr>)" for z p
    using getCardById_moveCard [OF h, of z p k] by simp
  have 3: "''limbo'' \<notin> {''main'', ''stock'', ''discard''}" by simp
  show ?thesis using 1 2 3 by (intro conjI exI [of _ "''limbo''"]) simp_all
qed

theorem moveCard_any_zone_witness:
  "getCardById example_model 0 =
     Some \<lparr>card_id = 0, face = 3, suit = 0, area = ''main'',
           position = \<lparr>pos_x = 10, pos_y = 20\<rparr>\<rparr> \<and>
   fst (moveCard 0 ''limbo'' origin example_model) = True \<and>
   getCardById (snd (moveCard 0 ''limbo'' origin example_model)) 0 =
     Some \<lparr>card_id = 0, face = 3, suit = 0, area = ''limbo'', position = origin\<rparr>"
proof -
  have h: "getCardById example_model 0 =
     Some \<lparr>card_id = 0, face = 3, suit = 0, area = ''main'',
           position = \<lparr>pos_x = 10, pos_y = 20\<rparr>\<rparr>"
    by (simp add: getCardById_def example_model_def)
  show ?thesis
    using h moveCard_any_zone [OF h, of "''limbo''" origin] by simp
qed

section \<open>Properties of undo\<close>

lemma undo_empty: "history g = [] \<Longrightarrow> undo g = (None, g)"
  by (simp add: undo_def)

text \<open>
  C6. With an empty history \<^verbatim>\<open>undo()\<close> returns \<^verbatim>\<open>null\<close> and leaves the model as it
  was, so any number of calls in a row all return \<^verbatim>\<open>null\<close> and change nothing.
\<close>

theorem undo_empty_history:
  "history g = [] \<Longrightarrow> undo g = (None, g) \<and> undos n g = (replicate n None, g)"
proof -
  assume h: "history g = []"
  have "undos n g = (replicate n None, g)"
    by (induction n) (simp_all add: undo_empty [OF h])
  then show ?thesis using undo_empty [OF h] by simp
qed

theorem undo_empty_history_witness:
  "history example_model = [] \<and>
   undo example_model = (None, example_model) \<and>
   undos 3 example_model = ([None, None, None], example_model)"
proof -
  have h: "history example_model = []"
    by (simp add: example_model_def)
  show ?thesis
    using h undo_empty_history [OF h, of 3] by (simp add: numeral_3_eq_3)
qed

text \<open>
  C7. With a non-empty history \<^verbatim>\<open>undo()\<close> removes exactly the last record pushed and
  returns it. When the card of the record is in the ledger its area and position become
  the recorded ones and no other card changes; when it is not, the record is consumed all
  the same and the cards are left as they were.
\<close>

theorem undo_restores:
  "history g = hs @ [r] \<Longrightarrow>
     fst (undo g) = Some r \<and>
     history (snd (undo g)) = hs \<and>
     (case getCardById g (cardId r) of
        Some c \<Rightarrow>
          cards (snd (undo g)) =
            AList.update (cardId r) (c\<lparr>area := oldArea r, position := oldPos r\<rparr>) (cards g) \<and>
          getCardById (snd (undo g)) (cardId r) =
            Some (c\<lparr>area := oldArea r, position := oldPos r\<rparr>) \<and>
          (\<forall>k. k \<noteq> cardId r \<longrightarrow> getCardById (snd (undo g)) k = getCardById g k)
      | None \<Rightarrow> cards (snd (undo g)) = cards g)"
  by (simp add: undo_def getCardById_def update_conv' Let_def split: option.splits)

theorem undo_restores_witness:
  "history (snd (moveCard 1 ''discard'' origin example_model)) =
     [] @ [\<lparr>cardId = 1, oldArea = ''stock'', oldPos = \<lparr>pos_x = 30, pos_y = 0\<rparr>\<rparr>] \<and>
   undo (snd (moveCard 1 ''discard'' origin example_model)) =
     (Some \<lparr>cardId = 1, oldArea = ''stock'', oldPos = \<lparr>pos_x = 30, pos_y = 0\<rparr>\<rparr>, example_model) \<and>
   history (example_model\<lparr>history := [\<lparr>cardId = 9, oldArea = ''main'', oldPos = origin\<rparr>]\<rparr>) =
     [] @ [\<lparr>cardId = 9, oldArea = ''main'', oldPos = origin\<rparr>] \<and>
   undo (example_model\<lparr>history := [\<lparr>cardId = 9, oldArea = ''main'', oldPos = origin\<rparr>]\<rparr>) =
     (Some \<lparr>cardId = 9, oldArea = ''main'', oldPos = origin\<rparr>, example_model)"
proof -
  let ?r = "\<lparr>cardId = 1, oldArea = ''stock'', oldPos = \<lparr>pos_x = 30, pos_y = 0\<rparr>\<rparr>"
  let ?g = "snd (moveCard 1 ''discard'' origin example_model)"
  let ?r' = "\<lparr>cardId = 9, oldArea = ''main'', oldPos = origin\<rparr>"
  let ?g' = "example_model\<lparr>history := [?r']\<rparr>"
  have h: "history ?g = [] @ [?r]"
    by (simp add: moveCard_def example_model_def)
  have h': "history ?g' = [] @ [?r']"
    by simp
  have c: "getCardById ?g 1 = Some \<lparr>card_id = 1, face = 7, suit = 1, area = ''discard'', position = origin\<rparr>"
    by (simp add: getCardById_def moveCard_def example_model_def)
  have c': "getCardById ?g' 9 = None"
    by (simp add: getCardById_def example_model_def)
  have e: "cards ?g = [(0, \<lparr>card_id = 0, face = 3, suit = 0, area = ''main'',
               position = \<lparr>pos_x = 10, pos_y = 20\<rparr>\<rparr>),
         (1, \<lparr>card_id = 1, face = 7, suit = 1, area = ''discard'',
               position = origin\<rparr>),
         (2, \<lparr>card_id = 2, face = 8, suit = 2, area = ''discard'',
               position = \<lparr>pos_x = 50, pos_y = 0\<rparr>\<rparr>)]"
    by (simp add: moveCard_def example_model_def)
  have 1: "undo ?g = (Some ?r, example_model)"
    using undo_restores [OF h] c e
    by (simp add: prod_eq_iff GameModel.equality example_model_def)
  have 2: "undo ?g' = (Some ?r', example_model)"
    using undo_restores [OF h'] c'
    by (simp add: prod_eq_iff GameModel.equality example_model_def)
  show ?thesis using h h' 1 2 by simp
qed

section \<open>Moves followed by undos\<close>

lemma point_copy: "\<lparr>pos_x = pos_x p, pos_y = pos_y p\<rparr> = p"
  by simp

lemma set_update_subset: "set (AList.update k v al) \<subseteq> insert (k, v) (set al)"
  by (induction al) auto

lemma keys_are_ids_lookup:
  "keys_are_ids g \<Longrightarrow> map_of (cards g) k = Some c \<Longrightarrow> card_id c = k"
  by (auto simp: keys_are_ids_def list_all_iff dest: map_of_SomeD)

lemma keys_are_ids_update:
  assumes "keys_are_ids g" and "card_id c = k"
  shows "keys_are_ids (g\<lparr>cards := AList.update k c (cards g)\<rparr>)"
  using assms set_update_subset [of k c "cards g"]
  by (auto simp: keys_are_ids_def list_all_iff)

lemma keys_are_ids_moveCard: "keys_are_ids g \<Longrightarrow> keys_are_ids (snd (moveCard k a p g))"
proof -
  assume h: "keys_are_ids g"
  show ?thesis
  proof (cases "map_of (cards g) k")
    case None
    then show ?thesis using h by (simp add: moveCard_def)
  next
    case (Some c)
    have "card_id c = k" using keys_are_ids_lookup [OF h Some] .
    then show ?thesis
      using h Some set_update_subset [of k "c\<lparr>area := a, position := p\<rparr>" "cards g"]
      by (auto simp: moveCard_def keys_are_ids_def list_all_iff)
  qed
qed

lemma keys_are_ids_undo: "keys_are_ids g \<Longrightarrow> keys_are_ids (snd (undo g))"
proof -
  assume h: "keys_are_ids g"
  let ?k = "cardId (last (history g))"
  show ?thesis
  proof (cases "map_of (cards g) ?k")
    case None
    then show ?thesis using h by (simp add: undo_def keys_are_ids_def Let_def)
  next
    case (Some c)
    have "card_id c = ?k" using keys_are_ids_lookup [OF h Some] .
    then show ?thesis
      using h Some
        set_update_subset [of ?k "c\<lparr>area := oldArea (last (history g)),
                                      position := oldPos (last (history g))\<rparr>" "cards g"]
      by (auto simp: undo_def keys_are_ids_def list_all_iff Let_def)
  qed
qed

lemma keys_are_ids_run: "keys_are_ids g \<Longrightarrow> keys_are_ids (run calls g)"
  by (induction calls g rule: run.induct) (simp_all add: keys_are_ids_moveCard keys_are_ids_undo)

text \<open>The invariant holds in a new model, after \<^verbatim>\<open>loadData\<close> (also when it throws), and after every call.\<close>

lemma forEach_keys_are_ids:
  fixes f :: "Item \<Rightarrow> int \<Rightarrow> int \<times> (int \<times> CardData) list \<Rightarrow> int \<times> (int \<times> CardData) list"
  assumes f: "\<And>item index n cs. \<exists>n' c. f item index (n, cs) = (n', AList.update (card_id c) c cs)"
  shows "list_all (\<lambda>(k, c). card_id c = k) cs \<Longrightarrow>
         list_all (\<lambda>(k, c). card_id c = k) (snd (forEach f items i (n, cs)))"
proof (induction items arbitrary: i n cs)
  case Nil
  then show ?case by simp
next
  case (Cons item items)
  obtain n' c where step: "f item i (n, cs) = (n', AList.update (card_id c) c cs)"
    using f by blast
  have "list_all (\<lambda>(k, c). card_id c = k) (AList.update (card_id c) c cs)"
    using Cons.prems set_update_subset [of "card_id c" c cs]
    by (auto simp: list_all_iff)
  then have "list_all (\<lambda>(k, c). card_id c = k)
               (snd (forEach f items (i + 1) (n', AList.update (card_id c) c cs)))"
    by (rule Cons.IH)
  then show ?case by (simp add: step)
qed

lemma keys_are_ids_loadData: "keys_are_ids g \<Longrightarrow> keys_are_ids (snd (loadData jsonData g))"
proof -
  assume h: "keys_are_ids g"
  have pf: "list_all (\<lambda>(k, c). card_id c = k) cs \<Longrightarrow>
      list_all (\<lambda>(k, c). card_id c = k) (snd (forEach playfield_callback items i (n, cs)))"
    for cs items i n
    by (rule forEach_keys_are_ids) (auto simp: playfield_callback_def Let_def)
  have st: "list_all (\<lambda>(k, c). card_id c = k) cs \<Longrightarrow>
      list_all (\<lambda>(k, c). card_id c = k) (snd (forEach (stack_callback l) items i (n, cs)))"
    for cs items i n l
    by (rule forEach_keys_are_ids) (auto simp: stack_callback_def Let_def)
  show ?thesis
  proof (cases "Playfield jsonData")
    case None
    then show ?thesis using h by (simp add: loadData_def)
  next
    case (Some ms)
    obtain n cs where one: "forEach playfield_callback ms 0 (0, cards g) = (n, cs)"
      by (cases "forEach playfield_callback ms 0 (0, cards g)") auto
    have cs: "list_all (\<lambda>(k, c). card_id c = k) cs"
      using pf [of "cards g" ms 0 0] h by (simp add: one keys_are_ids_def)
    show ?thesis
    proof (cases "Stack jsonData")
      case None
      then show ?thesis using Some one cs by (simp add: loadData_def keys_are_ids_def)
    next
      case (Some ss)
      obtain n' cs' where two: "forEach (stack_callback (int (length ss))) ss 0 (n, cs) = (n', cs')"
        by (cases "forEach (stack_callback (int (length ss))) ss 0 (n, cs)") auto
      have "list_all (\<lambda>(k, c). card_id c = k) cs'"
        using st [OF cs, of "int (length ss)" ss 0 n] by (simp add: two)
      then show ?thesis
        using \<open>Playfield jsonData = Some ms\<close> Some one two
        by (simp add: loadData_def keys_are_ids_def)
    qed
  qed
qed

lemma keys_are_ids_new: "keys_are_ids new_GameModel"
  by (simp add: keys_are_ids_def new_GameModel_def)

lemma undo_moveCard:
  assumes "keys_are_ids g" and "map_of (cards g) k = Some c"
  shows "undo (snd (moveCard k a p g)) =
           (Some \<lparr>cardId = k, oldArea = area c, oldPos = position c\<rparr>, g)"
proof -
  have id: "card_id c = k" using keys_are_ids_lookup [OF assms] .
  have "AList.update k c (cards g) = cards g"
    using assms(2) by (rule update_triv)
  then show ?thesis
    using assms(2) id by (simp add: moveCard_def undo_def update_conv' point_copy)
qed

lemma undos_Suc_right: "snd (undos (Suc n) g) = snd (undo (snd (undos n g)))"
proof (induction n arbitrary: g)
  case 0
  then show ?case by (simp split: prod.splits)
next
  case (Suc n)
  have "snd (undos (Suc (Suc n)) g) = snd (undos (Suc n) (snd (undo g)))"
    by (simp split: prod.splits)
  also have "\<dots> = snd (undo (snd (undos n (snd (undo g)))))"
    by (rule Suc.IH)
  also have "snd (undos n (snd (undo g))) = snd (undos (Suc n) g)"
    by (simp split: prod.splits)
  finally show ?case .
qed

text \<open>
  C2. From a ledger in which every card is stored under its own id (as \<^verbatim>\<open>loadData\<close>
  builds it), a sequence of moves that all succeed, followed by as many undos, gives back
  the model it started from: every card has the area and position it had, and the history
  is the history from before the sequence (empty if it was empty).
\<close>

theorem move_undo_inverse:
  "keys_are_ids g \<Longrightarrow> list_all (\<lambda>ok. ok) (fst (moveCards reqs g)) \<Longrightarrow>
     snd (undos (length reqs) (snd (moveCards reqs g))) = g"
proof (induction reqs arbitrary: g)
  case Nil
  then show ?case by simp
next
  case (Cons req reqs)
  obtain k a p where req: "req = (k, a, p)" by (cases req) auto
  let ?g1 = "snd (moveCard k a p g)"
  have fst1: "fst (moveCard k a p g)" and rest: "list_all (\<lambda>ok. ok) (fst (moveCards reqs ?g1))"
    using Cons.prems(2) by (simp_all add: req split: prod.splits)
  from fst1 obtain c where c: "map_of (cards g) k = Some c"
    by (auto simp: moveCard_ok_iff)
  have inv1: "keys_are_ids ?g1" using Cons.prems(1) by (rule keys_are_ids_moveCard)
  have IH: "snd (undos (length reqs) (snd (moveCards reqs ?g1))) = ?g1"
    using inv1 rest by (rule Cons.IH)
  have "snd (moveCards (req # reqs) g) = snd (moveCards reqs ?g1)"
    by (simp add: req split: prod.splits)
  then have "snd (undos (length (req # reqs)) (snd (moveCards (req # reqs) g)))
               = snd (undo (snd (undos (length reqs) (snd (moveCards reqs ?g1)))))"
    using undos_Suc_right by simp
  also have "\<dots> = snd (undo ?g1)" by (simp only: IH)
  also have "\<dots> = g" using undo_moveCard [OF Cons.prems(1) c] by simp
  finally show ?case .
qed

theorem move_undo_inverse_witness:
  "keys_are_ids example_model \<and>
   list_all (\<lambda>ok. ok)
     (fst (moveCards [(1, ''discard'', origin), (0, ''discard'', origin), (1, ''main'', origin)]
             example_model)) \<and>
   snd (undos 3
     (snd (moveCards [(1, ''discard'', origin), (0, ''discard'', origin), (1, ''main'', origin)]
             example_model))) = example_model"
proof -
  have a: "keys_are_ids example_model"
    by (simp add: keys_are_ids_def example_model_def)
  have b: "list_all (\<lambda>ok. ok)
     (fst (moveCards [(1, ''discard'', origin), (0, ''discard'', origin), (1, ''main'', origin)]
             example_model))"
    by (simp add: moveCard_def example_model_def)
  show ?thesis
    using a b move_undo_inverse [OF a b] by (simp add: numeral_3_eq_3)
qed

section \<open>What no call changes\<close>

lemma identity_update:
  "map_of al k = Some c \<Longrightarrow> card_id c' = card_id c \<Longrightarrow> face c' = face c \<Longrightarrow>
   suit c' = suit c \<Longrightarrow>
   map (\<lambda>(k, c). (k, card_id c, face c, suit c)) (AList.update k c' al) =
   map (\<lambda>(k, c). (k, card_id c, face c, suit c)) al"
  by (induction al) (auto split: if_splits)

lemma identities_moveCard: "identities (snd (moveCard k a p g)) = identities g"
  by (cases "map_of (cards g) k") (simp_all add: moveCard_def identities_def identity_update)

lemma identities_undo: "identities (snd (undo g)) = identities g"
  by (cases "map_of (cards g) (cardId (last (history g)))")
     (simp_all add: undo_def identities_def identity_update Let_def)

lemma identities_run: "identities (run calls g) = identities g"
  by (induction calls g rule: run.induct) (simp_all add: identities_moveCard identities_undo)

lemma identities_keys: "map fst (cards g) = map fst (identities g)"
  by (simp add: identities_def case_prod_beta comp_def)

lemma identities_lookup:
  "map_option (\<lambda>c. (card_id c, face c, suit c)) (getCardById g k) = map_of (identities g) k"
proof -
  have "map_option (\<lambda>c. (card_id c, face c, suit c)) (map_of al k)
          = map_of (map (\<lambda>(k, c). (k, card_id c, face c, suit c)) al) k"
    for al :: "(int \<times> CardData) list"
    by (induction al) auto
  then show ?thesis by (simp add: identities_def getCardById_def)
qed

text \<open>
  C9. Whatever calls of \<^verbatim>\<open>moveCard\<close> and \<^verbatim>\<open>undo\<close> are made, in any order and with any
  arguments, the keys of the card map stay the same keys in the same order (so the set of
  ids is unchanged and an id that had one card still has one), and the card found under
  an id has the id, face and suit it had: only area and position change.
\<close>

theorem identity_invariant:
  "map fst (cards (run calls g)) = map fst (cards g) \<and>
   distinct (map fst (cards (run calls g))) = distinct (map fst (cards g)) \<and>
   (\<forall>k. map_option (\<lambda>c. (card_id c, face c, suit c)) (getCardById (run calls g) k) =
        map_option (\<lambda>c. (card_id c, face c, suit c)) (getCardById g k))"
  by (simp add: identities_keys identities_lookup identities_run)

theorem identity_invariant_witness:
  "map fst (cards (run [MoveCard 1 ''discard'' origin, MoveCard 5 ''main'' origin, Undo, Undo,
                        MoveCard 0 ''limbo'' origin] example_model)) = [0, 1, 2] \<and>
   distinct (map fst (cards (run [MoveCard 1 ''discard'' origin, MoveCard 5 ''main'' origin, Undo,
                        Undo, MoveCard 0 ''limbo'' origin] example_model))) \<and>
   map_option (\<lambda>c. (card_id c, face c, suit c))
     (getCardById (run [MoveCard 1 ''discard'' origin, MoveCard 5 ''main'' origin, Undo, Undo,
                        MoveCard 0 ''limbo'' origin] example_model) 0) = Some (0, 3, 0)"
  using identity_invariant [of "[MoveCard 1 ''discard'' origin, MoveCard 5 ''main'' origin, Undo,
                        Undo, MoveCard 0 ''limbo'' origin]" example_model]
  by (simp add: example_model_def getCardById_def)

section \<open>Properties of loadData\<close>

lemma update_fresh: "k \<notin> fst ` set al \<Longrightarrow> AList.update k v al = al @ [(k, v)]"
  by (induction al) auto

lemma forEach_cards:
  fixes f :: "Item \<Rightarrow> int \<Rightarrow> int \<times> (int \<times> CardData) list \<Rightarrow> int \<times> (int \<times> CardData) list"
  assumes f: "\<And>item index n cs. f item index (n, cs) =
      (n + 1, AList.update n (new_CardData n (CardFace item) (CardSuit item) (af index) (Position item)) cs)"
  shows "\<forall>k \<in> fst ` set cs. k < n \<Longrightarrow>
     forEach f items i (n, cs) =
       (n + int (length items),
        cs @ map (\<lambda>j. (n + int j,
                    new_CardData (n + int j) (CardFace (items ! j)) (CardSuit (items ! j))
                      (af (i + int j)) (Position (items ! j))))
               [0..<length items])"
proof (induction items arbitrary: i n cs)
  case Nil
  then show ?case by simp
next
  case (Cons item items)
  let ?c = "new_CardData n (CardFace item) (CardSuit item) (af i) (Position item)"
  have fresh: "n \<notin> fst ` set cs" using Cons.prems by auto
  have step: "f item i (n, cs) = (n + 1, cs @ [(n, ?c)])"
    by (simp add: f update_fresh [OF fresh])
  have bound: "\<forall>k \<in> fst ` set (cs @ [(n, ?c)]). k < n + 1"
    using Cons.prems by auto
  have "forEach f (item # items) i (n, cs) = forEach f items (i + 1) (n + 1, cs @ [(n, ?c)])"
    by (simp add: step)
  also have "\<dots> = (n + 1 + int (length items),
        (cs @ [(n, ?c)]) @ map (\<lambda>j. (n + 1 + int j,
                    new_CardData (n + 1 + int j) (CardFace (items ! j)) (CardSuit (items ! j))
                      (af (i + 1 + int j)) (Position (items ! j))))
               [0..<length items])"
    using bound by (rule Cons.IH)
  also have "\<dots> = (n + int (length (item # items)),
        cs @ map (\<lambda>j. (n + int j,
                    new_CardData (n + int j) (CardFace ((item # items) ! j)) (CardSuit ((item # items) ! j))
                      (af (i + int j)) (Position ((item # items) ! j))))
               [0..<length (item # items)])"
    by (simp add: upt_conv_Cons map_Suc_upt [symmetric] add.commute add.left_commute del: upt_Suc)
  finally show ?case .
qed


lemma forEach_playfield:
  "forEach playfield_callback ms 0 (0, []) = (int (length ms), map (main_card ms) [0..<length ms])"
proof -
  have "forEach playfield_callback ms 0 (0, []) =
       (0 + int (length ms),
        [] @ map (\<lambda>j. (0 + int j,
                    new_CardData (0 + int j) (CardFace (ms ! j)) (CardSuit (ms ! j))
                      ((\<lambda>_. ''main'') (0 + int j)) (Position (ms ! j))))
               [0..<length ms])"
    by (rule forEach_cards) (simp_all add: playfield_callback_def new_CardData_def)
  then show ?thesis by (simp add: main_card_def new_CardData_def)
qed

lemma forEach_stack:
  "forEach (stack_callback (int (length ss))) ss 0 (int m, map (main_card ms) [0..<m]) =
     (int (m + length ss), map (main_card ms) [0..<m] @ map (stack_card m ss) [0..<length ss])"
proof -
  let ?cs = "map (main_card ms) [0..<m]"
  have bound: "\<forall>k \<in> fst ` set ?cs. k < int m"
    by (auto simp: main_card_def)
  have "forEach (stack_callback (int (length ss))) ss 0 (int m, ?cs) =
       (int m + int (length ss),
        ?cs @ map (\<lambda>j. (int m + int j,
                    new_CardData (int m + int j) (CardFace (ss ! j)) (CardSuit (ss ! j))
                      ((\<lambda>index. if index = int (length ss) - 1 then ''discard'' else ''stock'') (0 + int j))
                      (Position (ss ! j))))
               [0..<length ss])"
    using bound by (intro forEach_cards) (simp_all add: stack_callback_def new_CardData_def)
  moreover have "(int j = int (length ss) - 1) = (j = length ss - 1)" if "j < length ss" for j
    using that by auto
  ultimately show ?thesis by (simp add: stack_card_def new_CardData_def)
qed

lemma loadData_cards:
  "Playfield jsonData = Some ms \<Longrightarrow> Stack jsonData = Some ss \<Longrightarrow>
   loadData jsonData new_GameModel =
     (None, \<lparr>cards = map (main_card ms) [0..<length ms] @ map (stack_card (length ms) ss) [0..<length ss],
             history = []\<rparr>)"
  by (simp add: loadData_def new_GameModel_def forEach_playfield forEach_stack)

lemma loadData_no_stack:
  "Playfield jsonData = Some ms \<Longrightarrow> Stack jsonData = None \<Longrightarrow>
   loadData jsonData new_GameModel =
     (Some TypeError, \<lparr>cards = map (main_card ms) [0..<length ms], history = []\<rparr>)"
  by (simp add: loadData_def new_GameModel_def forEach_playfield)

lemma loaded_keys:
  "map fst (map (main_card ms) [0..<m] @ map (stack_card m ss) [0..<n]) = map int [0..<m + n]"
proof -
  have "map fst (map (stack_card m ss) [0..<n]) = map int (map (\<lambda>j. j + m) [0..<n])"
    by (simp add: stack_card_def comp_def add.commute)
  also have "\<dots> = map int [m..<m + n]"
    by (simp only: map_add_upt add.commute)
  finally have s: "map fst (map (stack_card m ss) [0..<n]) = map int [m..<m + n]" .
  have p: "map fst (map (main_card ms) [0..<m]) = map int [0..<m]"
    by (simp add: main_card_def comp_def)
  have split: "[0..<m + n] = [0..<m] @ [m..<m + n]"
    by (rule upt_add_eq_append) simp
  show ?thesis
    by (simp only: map_append s p split)
qed

lemma loaded_lookup:
  assumes "(k, c) \<in> set (map (main_card ms) [0..<m] @ map (stack_card m ss) [0..<n])"
  shows "map_of (map (main_card ms) [0..<m] @ map (stack_card m ss) [0..<n]) k = Some c"
proof (rule map_of_is_SomeI)
  show "distinct (map fst (map (main_card ms) [0..<m] @ map (stack_card m ss) [0..<n]))"
    by (simp only: loaded_keys) (simp add: distinct_map)
  show "(k, c) \<in> set (map (main_card ms) [0..<m] @ map (stack_card m ss) [0..<n])"
    by (rule assms)
qed

lemma example_model_loaded: "loadData example_layout new_GameModel = (None, example_model)"
  by (simp add: loadData_def example_layout_def example_model_def new_GameModel_def
        playfield_callback_def stack_callback_def new_CardData_def Let_def)

text \<open>
  C1. Loading a layout with main entries \<open>ms\<close> and stack entries \<open>ss\<close> into a fresh model
  returns normally and leaves exactly \<open>length ms + length ss\<close> cards, whose keys are
  \<open>0, 1, \<dots>\<close> in that order without gap or repeat: first the main entries in input order, each
  in area \<^verbatim>\<open>'main'\<close>, then the stack entries in input order, the last one in area
  \<^verbatim>\<open>'discard'\<close> and the others in \<^verbatim>\<open>'stock'\<close>; each card carries the face, suit and
  position of its entry.
\<close>

theorem loadData_correct:
  "Playfield jsonData = Some ms \<Longrightarrow> Stack jsonData = Some ss \<Longrightarrow>
     fst (loadData jsonData new_GameModel) = None \<and>
     length (cards (snd (loadData jsonData new_GameModel))) = length ms + length ss \<and>
     map fst (cards (snd (loadData jsonData new_GameModel))) = map int [0..<length ms + length ss] \<and>
     (\<forall>i<length ms.
        getCardById (snd (loadData jsonData new_GameModel)) (int i) =
          Some \<lparr>card_id = int i, face = CardFace (ms ! i), suit = CardSuit (ms ! i),
                area = ''main'', position = Position (ms ! i)\<rparr>) \<and>
     (\<forall>j<length ss.
        getCardById (snd (loadData jsonData new_GameModel)) (int (length ms + j)) =
          Some \<lparr>card_id = int (length ms + j), face = CardFace (ss ! j), suit = CardSuit (ss ! j),
                area = (if j = length ss - 1 then ''discard'' else ''stock''),
                position = Position (ss ! j)\<rparr>)"
proof -
  assume pf: "Playfield jsonData = Some ms" and st: "Stack jsonData = Some ss"
  let ?cs = "map (main_card ms) [0..<length ms] @ map (stack_card (length ms) ss) [0..<length ss]"
  note ld = loadData_cards [OF pf st]
  have 1: "fst (loadData jsonData new_GameModel) = None" by (simp add: ld)
  have cs: "cards (snd (loadData jsonData new_GameModel)) = ?cs" by (simp add: ld)
  have 2: "length ?cs = length ms + length ss" by simp
  have 3: "map fst ?cs = map int [0..<length ms + length ss]" by (rule loaded_keys)
  have 4: "map_of ?cs (int i) = Some \<lparr>card_id = int i, face = CardFace (ms ! i), suit = CardSuit (ms ! i),
                area = ''main'', position = Position (ms ! i)\<rparr>" if "i < length ms" for i
  proof (rule loaded_lookup)
    have "main_card ms i \<in> set (map (main_card ms) [0..<length ms])" using that by simp
    then show "(int i, \<lparr>card_id = int i, face = CardFace (ms ! i), suit = CardSuit (ms ! i),
                area = ''main'', position = Position (ms ! i)\<rparr>) \<in> set ?cs"
      by (simp add: main_card_def)
  qed
  have 5: "map_of ?cs (int (length ms + j)) = Some \<lparr>card_id = int (length ms + j), face = CardFace (ss ! j), suit = CardSuit (ss ! j),
                area = (if j = length ss - 1 then ''discard'' else ''stock''),
                position = Position (ss ! j)\<rparr>" if "j < length ss" for j
  proof (rule loaded_lookup)
    have "stack_card (length ms) ss j \<in> set (map (stack_card (length ms) ss) [0..<length ss])" using that by simp
    then show "(int (length ms + j), \<lparr>card_id = int (length ms + j), face = CardFace (ss ! j), suit = CardSuit (ss ! j),
                area = (if j = length ss - 1 then ''discard'' else ''stock''),
                position = Position (ss ! j)\<rparr>) \<in> set ?cs"
      by (simp add: stack_card_def)
  qed
  show ?thesis
    by (intro conjI allI impI) (simp_all only: 1 2 3 4 5 cs getCardById_def)
qed


lemma main_only_lookup:
  assumes "i < length ms"
  shows "map_of (map (main_card ms) [0..<length ms]) (int i) = Some (snd (main_card ms i))"
proof -
  have "(int i, snd (main_card ms i)) \<in> set (map (main_card ms) [0..<length ms] @ map (stack_card (length ms) []) [0..<0])"
    using assms by (auto simp: main_card_def)
  from loaded_lookup [OF this] show ?thesis by simp
qed

theorem loadData_correct_witness:
  "Playfield example_layout =
     Some [\<lparr>CardFace = 3, CardSuit = 0, Position = \<lparr>pos_x = 10, pos_y = 20\<rparr>\<rparr>] \<and>
   Stack example_layout =
     Some [\<lparr>CardFace = 7, CardSuit = 1, Position = \<lparr>pos_x = 30, pos_y = 0\<rparr>\<rparr>,
           \<lparr>CardFace = 8, CardSuit = 2, Position = \<lparr>pos_x = 50, pos_y = 0\<rparr>\<rparr>] \<and>
   fst (loadData example_layout new_GameModel) = None \<and>
   map fst (cards (snd (loadData example_layout new_GameModel))) = [0, 1, 2] \<and>
   getCardById (snd (loadData example_layout new_GameModel)) 0 =
     Some \<lparr>card_id = 0, face = 3, suit = 0, area = ''main'',
           position = \<lparr>pos_x = 10, pos_y = 20\<rparr>\<rparr> \<and>
   getCardById (snd (loadData example_layout new_GameModel)) 1 =
     Some \<lparr>card_id = 1, face = 7, suit = 1, area = ''stock'',
           position = \<lparr>pos_x = 30, pos_y = 0\<rparr>\<rparr> \<and>
   getCardById (snd (loadData example_layout new_GameModel)) 2 =
     Some \<lparr>card_id = 2, face = 8, suit = 2, area = ''discard'',
           position = \<lparr>pos_x = 50, pos_y = 0\<rparr>\<rparr>"
proof -
  let ?ms = "[\<lparr>CardFace = 3, CardSuit = 0, Position = \<lparr>pos_x = 10, pos_y = 20\<rparr>\<rparr>]"
  let ?ss = "[\<lparr>CardFace = 7, CardSuit = 1, Position = \<lparr>pos_x = 30, pos_y = 0\<rparr>\<rparr>,
           \<lparr>CardFace = 8, CardSuit = 2, Position = \<lparr>pos_x = 50, pos_y = 0\<rparr>\<rparr>]"
  have pf: "Playfield example_layout = Some ?ms" and st: "Stack example_layout = Some ?ss"
    by (simp_all add: example_layout_def)
  note t = loadData_correct [OF pf st]
  have 0: "getCardById (snd (loadData example_layout new_GameModel)) (int 0) =
     Some \<lparr>card_id = 0, face = 3, suit = 0, area = ''main'',
           position = \<lparr>pos_x = 10, pos_y = 20\<rparr>\<rparr>"
    using t by simp
  have "(\<forall>j<length ?ss.
        getCardById (snd (loadData example_layout new_GameModel)) (int (length ?ms + j)) =
          Some \<lparr>card_id = int (length ?ms + j), face = CardFace (?ss ! j), suit = CardSuit (?ss ! j),
                area = (if j = length ?ss - 1 then ''discard'' else ''stock''),
                position = Position (?ss ! j)\<rparr>)"
    using t by blast
  then have s: "j < 2 \<Longrightarrow> getCardById (snd (loadData example_layout new_GameModel)) (int (1 + j)) =
          Some \<lparr>card_id = int (1 + j), face = CardFace (?ss ! j), suit = CardSuit (?ss ! j),
                area = (if j = 1 then ''discard'' else ''stock''),
                position = Position (?ss ! j)\<rparr>" for j
    by simp
  have 1: "getCardById (snd (loadData example_layout new_GameModel)) 1 =
     Some \<lparr>card_id = 1, face = 7, suit = 1, area = ''stock'',
           position = \<lparr>pos_x = 30, pos_y = 0\<rparr>\<rparr>"
    using s [of 0] by simp
  have 2: "getCardById (snd (loadData example_layout new_GameModel)) 2 =
     Some \<lparr>card_id = 2, face = 8, suit = 2, area = ''discard'',
           position = \<lparr>pos_x = 50, pos_y = 0\<rparr>\<rparr>"
    using s [of 1] by simp
  have k: "map fst (cards (snd (loadData example_layout new_GameModel))) = [0, 1, 2]"
    using t by (simp add: upt_rec)
  have e: "fst (loadData example_layout new_GameModel) = None"
    using t by simp
  show ?thesis using pf st e k 0 1 2 by simp
qed

text \<open>
  C8, as the code has it. A layout without its \<^verbatim>\<open>Playfield\<close> list makes \<^verbatim>\<open>loadData\<close> throw
  a \<^verbatim>\<open>TypeError\<close> before it touches the model. A layout with a \<^verbatim>\<open>Playfield\<close> list but
  without its \<^verbatim>\<open>Stack\<close> list makes it throw after the main cards are stored: the fresh
  model is left with exactly the main cards, keys \<open>0, 1, \<dots>\<close>, and an empty history.
\<close>

theorem loadData_absent_list:
  "(Playfield jsonData = None \<longrightarrow> loadData jsonData g = (Some TypeError, g)) \<and>
   (Playfield jsonData = Some ms \<and> Stack jsonData = None \<longrightarrow>
      fst (loadData jsonData new_GameModel) = Some TypeError \<and>
      history (snd (loadData jsonData new_GameModel)) = [] \<and>
      map fst (cards (snd (loadData jsonData new_GameModel))) = map int [0..<length ms] \<and>
      (\<forall>i<length ms.
         getCardById (snd (loadData jsonData new_GameModel)) (int i) =
           Some \<lparr>card_id = int i, face = CardFace (ms ! i), suit = CardSuit (ms ! i),
                 area = ''main'', position = Position (ms ! i)\<rparr>))"
proof (intro conjI impI)
  assume "Playfield jsonData = None"
  then show "loadData jsonData g = (Some TypeError, g)"
    by (simp add: loadData_def)
next
  assume a: "Playfield jsonData = Some ms \<and> Stack jsonData = None"
  then have ld: "loadData jsonData new_GameModel =
     (Some TypeError, \<lparr>cards = map (main_card ms) [0..<length ms], history = []\<rparr>)"
    by (simp add: loadData_no_stack)
  show "fst (loadData jsonData new_GameModel) = Some TypeError" by (simp add: ld)
  show "history (snd (loadData jsonData new_GameModel)) = []" by (simp add: ld)
  show "map fst (cards (snd (loadData jsonData new_GameModel))) = map int [0..<length ms]"
    by (simp add: ld main_card_def comp_def)
  show "\<forall>i<length ms.
         getCardById (snd (loadData jsonData new_GameModel)) (int i) =
           Some \<lparr>card_id = int i, face = CardFace (ms ! i), suit = CardSuit (ms ! i),
                 area = ''main'', position = Position (ms ! i)\<rparr>"
    by (simp add: ld getCardById_def main_only_lookup) (simp add: main_card_def)
qed

text \<open>
  The call does raise: with both lists absent, and with only the stack list absent.
\<close>

theorem loadData_absent_list_raises:
  "fst (loadData \<lparr>Playfield = None, Stack = None\<rparr> new_GameModel) = Some TypeError \<and>
   fst (loadData (example_layout\<lparr>Stack := None\<rparr>) new_GameModel) = Some TypeError"
  by (simp add: loadData_def example_layout_def playfield_callback_def Let_def)

theorem loadData_absent_list_witness:
  "Playfield (example_layout\<lparr>Playfield := None\<rparr>) = None \<and>
   loadData (example_layout\<lparr>Playfield := None\<rparr>) example_model = (Some TypeError, example_model) \<and>
   Playfield (example_layout\<lparr>Stack := None\<rparr>) =
     Some [\<lparr>CardFace = 3, CardSuit = 0, Position = \<lparr>pos_x = 10, pos_y = 20\<rparr>\<rparr>] \<and>
   Stack (example_layout\<lparr>Stack := None\<rparr>) = None \<and>
   loadData (example_layout\<lparr>Stack := None\<rparr>) new_GameModel =
     (Some TypeError,
      \<lparr>cards = [(0, \<lparr>card_id = 0, face = 3, suit = 0, area = ''main'',
                        position = \<lparr>pos_x = 10, pos_y = 20\<rparr>\<rparr>)],
        history = []\<rparr>)"
proof -
  let ?ms = "[\<lparr>CardFace = 3, CardSuit = 0, Position = \<lparr>pos_x = 10, pos_y = 20\<rparr>\<rparr>]"
  have a: "Playfield (example_layout\<lparr>Playfield := None\<rparr>) = None" by simp
  have b: "Playfield (example_layout\<lparr>Stack := None\<rparr>) = Some ?ms \<and>
           Stack (example_layout\<lparr>Stack := None\<rparr>) = None"
    by (simp add: example_layout_def)
  have 1: "loadData (example_layout\<lparr>Playfield := None\<rparr>) example_model = (Some TypeError, example_model)"
    using loadData_absent_list [of "example_layout\<lparr>Playfield := None\<rparr>" example_model ?ms] a
    by simp
  have 2: "loadData (example_layout\<lparr>Stack := None\<rparr>) new_GameModel =
     (Some TypeError,
      \<lparr>cards = [(0, \<lparr>card_id = 0, face = 3, suit = 0, area = ''main'',
                        position = \<lparr>pos_x = 10, pos_y = 20\<rparr>\<rparr>)],
        history = []\<rparr>)"
    using loadData_absent_list [of "example_layout\<lparr>Stack := None\<rparr>" new_GameModel ?ms] b
    by (simp add: loadData_def example_layout_def playfield_callback_def new_CardData_def new_GameModel_def)
  show ?thesis using a b 1 2 by simp
qed

section \<open>Properties of the controller\<close>

lemma isMatch_empty: "discardPile gc = [] \<Longrightarrow> isMatch gc k = Inr False"
  by (simp add: isMatch_def)

lemma isMatch_top:
  "topDiscardCard gc = Some t \<Longrightarrow>
   isMatch gc k =
     (case getCardById (model gc) k of
        None \<Rightarrow> Inr False
      | Some c \<Rightarrow> Inr (\<bar>face c - face t\<bar> = 1))"
  by (auto simp: isMatch_def topDiscardCard_def last_conv_nth Let_def
           split: if_splits option.splits)

text \<open>
  C3. The discard zone is read as the children of the discard pile node, the top card
  being the card of its last child. When the pile is empty or its top child is a card of
  the ledger, \<^verbatim>\<open>isMatch(cardId)\<close> returns \<open>True\<close> exactly when the pile is non-empty, the
  id resolves to a card and the faces of that card and of the top card differ by exactly
  one. So faces 5 and 6 match in both directions, faces 0 and 12 do not match, and the
  result is \<open>False\<close> when the pile is empty or the id does not resolve.
\<close>

theorem isMatch_semantics:
  "discardPile gc = [] \<or> topDiscardCard gc \<noteq> None \<Longrightarrow>
     isMatch gc k =
       Inr (discardPile gc \<noteq> [] \<and>
            (\<exists>c t. getCardById (model gc) k = Some c \<and> topDiscardCard gc = Some t \<and>
                   \<bar>face c - face t\<bar> = 1)) \<and>
     (\<forall>c t. getCardById (model gc) k = Some c \<and> topDiscardCard gc = Some t \<longrightarrow>
        ((face c = 5 \<and> face t = 6 \<or> face c = 6 \<and> face t = 5) \<longrightarrow> isMatch gc k = Inr True) \<and>
        ((face c = 0 \<and> face t = 12 \<or> face c = 12 \<and> face t = 0) \<longrightarrow> isMatch gc k = Inr False)) \<and>
     (discardPile gc = [] \<or> getCardById (model gc) k = None \<longrightarrow> isMatch gc k = Inr False)"
proof -
  assume h: "discardPile gc = [] \<or> topDiscardCard gc \<noteq> None"
  show ?thesis
  proof (cases "discardPile gc = []")
    case True
    then have "topDiscardCard gc = None" by (simp add: topDiscardCard_def)
    then show ?thesis using True by (simp add: isMatch_empty)
  next
    case False
    with h obtain t where t: "topDiscardCard gc = Some t" by auto
    show ?thesis
      using False t by (auto simp: isMatch_top split: option.splits)
  qed
qed

theorem isMatch_semantics_witness:
  "(discardPile (two_card_game 5 6) = [] \<or> topDiscardCard (two_card_game 5 6) \<noteq> None) \<and>
   isMatch (two_card_game 5 6) 0 = Inr True \<and>
   isMatch (two_card_game 6 5) 0 = Inr True \<and>
   isMatch (two_card_game 0 12) 0 = Inr False \<and>
   isMatch (two_card_game 12 0) 0 = Inr False \<and>
   isMatch (two_card_game 5 6) 7 = Inr False \<and>
   isMatch ((two_card_game 5 6)\<lparr>discardPile := []\<rparr>) 0 = Inr False"
proof -
  have top: "topDiscardCard (two_card_game f t) =
      Some \<lparr>card_id = 1, face = t, suit = 1, area = ''discard'', position = origin\<rparr>" for f t
    by (simp add: topDiscardCard_def two_card_game_def getCardById_def)
  have cur: "getCardById (model (two_card_game f t)) 0 =
      Some \<lparr>card_id = 0, face = f, suit = 0, area = ''main'', position = origin\<rparr>" for f t
    by (simp add: two_card_game_def getCardById_def)
  have dp: "discardPile (two_card_game f t) = [1]" for f t
    by (simp add: two_card_game_def)
  have none: "getCardById (model (two_card_game f t)) 7 = None" for f t
    by (simp add: two_card_game_def getCardById_def)
  have h: "discardPile (two_card_game f t) = [] \<or> topDiscardCard (two_card_game f t) \<noteq> None" for f t
    by (simp add: top)
  have h': "discardPile ((two_card_game 5 6)\<lparr>discardPile := []\<rparr>) = [] \<or>
            topDiscardCard ((two_card_game 5 6)\<lparr>discardPile := []\<rparr>) \<noteq> None"
    by simp
  have 1: "isMatch (two_card_game 5 6) 0 = Inr True"
    using isMatch_semantics [OF h, of 5 6 0] top [of 5 6] cur [of 5 6] by (simp add: dp)
  have 2: "isMatch (two_card_game 6 5) 0 = Inr True"
    using isMatch_semantics [OF h, of 6 5 0] top [of 6 5] cur [of 6 5] by (simp add: dp)
  have 3: "isMatch (two_card_game 0 12) 0 = Inr False"
    using isMatch_semantics [OF h, of 0 12 0] top [of 0 12] cur [of 0 12] by (simp add: dp)
  have 4: "isMatch (two_card_game 12 0) 0 = Inr False"
    using isMatch_semantics [OF h, of 12 0 0] top [of 12 0] cur [of 12 0] by (simp add: dp)
  have 5: "isMatch (two_card_game 5 6) 7 = Inr False"
    using isMatch_semantics [OF h, of 5 6 7] none [of 5 6] by (simp add: dp)
  have 6: "isMatch ((two_card_game 5 6)\<lparr>discardPile := []\<rparr>) 0 = Inr False"
    using isMatch_semantics [OF h', of 0] by simp
  show ?thesis using h [of 5 6] 1 2 3 4 5 6 by simp
qed


lemma model_setParent_discardPile: "model (setParent_discardPile n gc) = model gc"
  by (simp add: setParent_discardPile_def)

lemma model_moveCardToDiscard:
  "model (moveCardToDiscard k gc) = snd (moveCard k ''discard'' origin (model gc))"
  by (simp add: moveCardToDiscard_def origin_def Let_def model_setParent_discardPile
           split: prod.splits option.splits)

lemma getNodeForArea_simps:
  "getNodeForArea ''main'' = Some MainCardArea"
  "getNodeForArea ''stock'' = Some StockPile"
  "getNodeForArea ''discard'' = Some DiscardPile"
  by (simp_all add: getNodeForArea_def)

text \<open>
  C4. A click on the node \<open>n\<close> of a card \<open>c\<close> of the ledger, the node sitting under the
  area node of the card's area, with the occlusion test \<open>isCovered\<close> given from outside.
  If the card is covered nothing changes. Otherwise: a card in \<^verbatim>\<open>'discard'\<close> is left where it
  is; a card in \<^verbatim>\<open>'stock'\<close> is moved to the discard pile without any match test; a card in
  \<^verbatim>\<open>'main'\<close> is moved to the discard pile when \<^verbatim>\<open>isMatch\<close> returns \<open>True\<close> and is left where
  it is when \<^verbatim>\<open>isMatch\<close> returns \<open>False\<close>. Moving to the discard pile puts the card in area
  \<^verbatim>\<open>'discard'\<close> at the origin and pushes its previous area and position on the history.
\<close>

theorem move_legality:
  assumes "cardViewOf gc n = Some k"
    and "getCardById (model gc) k = Some c"
    and "parent gc n = getNodeForArea (area c)"
  shows
    "(isCovered n \<longrightarrow> onCardClick isCovered n gc = Inr gc) \<and>
     (\<not> isCovered n \<and> area c = ''discard'' \<longrightarrow> onCardClick isCovered n gc = Inr gc) \<and>
     (\<not> isCovered n \<and> area c = ''stock'' \<longrightarrow>
        onCardClick isCovered n gc = Inr (moveCardToDiscard k gc)) \<and>
     (\<not> isCovered n \<and> area c = ''main'' \<longrightarrow>
        onCardClick isCovered n gc =
          (case isMatch gc k of
             Inr True \<Rightarrow> Inr (moveCardToDiscard k gc)
           | Inr False \<Rightarrow> Inr gc
           | Inl e \<Rightarrow> Inl e)) \<and>
     getCardById (model (moveCardToDiscard k gc)) k =
       Some (c\<lparr>area := ''discard'', position := origin\<rparr>) \<and>
     history (model (moveCardToDiscard k gc)) =
       history (model gc) @ [\<lparr>cardId = card_id c, oldArea = area c, oldPos = position c\<rparr>]"
proof -
  have 1: "isCovered n \<longrightarrow> onCardClick isCovered n gc = Inr gc"
    using assms(1) by (simp add: onCardClick_def)
  have 2: "\<not> isCovered n \<and> area c = ''discard'' \<longrightarrow> onCardClick isCovered n gc = Inr gc"
    using assms(1,3) by (simp add: onCardClick_def getNodeForArea_simps)
  have 3: "\<not> isCovered n \<and> area c = ''stock'' \<longrightarrow>
        onCardClick isCovered n gc = Inr (moveCardToDiscard k gc)"
    using assms(1,3) by (simp add: onCardClick_def getNodeForArea_simps)
  have 4: "\<not> isCovered n \<and> area c = ''main'' \<longrightarrow>
        onCardClick isCovered n gc =
          (case isMatch gc k of
             Inr True \<Rightarrow> Inr (moveCardToDiscard k gc)
           | Inr False \<Rightarrow> Inr gc
           | Inl e \<Rightarrow> Inl e)"
    using assms(1,3) by (simp add: onCardClick_def getNodeForArea_simps split: sum.splits)
  have 5: "getCardById (model (moveCardToDiscard k gc)) k =
       Some (c\<lparr>area := ''discard'', position := origin\<rparr>)"
    using getCardById_moveCard [OF assms(2), of "''discard''" origin k]
    by (simp add: model_moveCardToDiscard)
  have 6: "history (model (moveCardToDiscard k gc)) =
       history (model gc) @ [\<lparr>cardId = card_id c, oldArea = area c, oldPos = position c\<rparr>]"
    using assms(2) by (simp add: model_moveCardToDiscard moveCard_def getCardById_def point_copy)
  show ?thesis using 1 2 3 4 5 6 by blast
qed


lemma moveCardToDiscard_view:
  "getCardById (model gc) k = Some c \<Longrightarrow> cardViewMap gc k = Some n \<Longrightarrow>
   parent (moveCardToDiscard k gc) n = Some DiscardPile \<and>
   last (discardPile (moveCardToDiscard k gc)) = n"
  by (simp add: moveCardToDiscard_def moveCard_def getCardById_def Let_def parent_def
        setParent_discardPile_def)

theorem move_legality_witness:
  "cardViewOf example_controller 1 = Some 1 \<and>
   getCardById (model example_controller) 1 =
     Some \<lparr>card_id = 1, face = 7, suit = 1, area = ''stock'',
           position = \<lparr>pos_x = 30, pos_y = 0\<rparr>\<rparr> \<and>
   parent example_controller 1 = getNodeForArea ''stock'' \<and>
   onCardClick (\<lambda>n. True) 1 example_controller = Inr example_controller \<and>
   onCardClick (\<lambda>n. False) 1 example_controller = Inr (moveCardToDiscard 1 example_controller) \<and>
   getCardById (model (moveCardToDiscard 1 example_controller)) 1 =
     Some \<lparr>card_id = 1, face = 7, suit = 1, area = ''discard'', position = origin\<rparr> \<and>
   onCardClick (\<lambda>n. False) 2 example_controller = Inr example_controller \<and>
   isMatch example_controller 0 = Inr False \<and>
   onCardClick (\<lambda>n. False) 0 example_controller = Inr example_controller \<and>
   isMatch (two_card_game 5 6) 0 = Inr True \<and>
   onCardClick (\<lambda>n. False) 0 (two_card_game 5 6) = Inr (moveCardToDiscard 0 (two_card_game 5 6))"
proof -
  let ?c0 = "\<lparr>card_id = 0, face = 3, suit = 0, area = ''main'',
               position = \<lparr>pos_x = 10, pos_y = 20\<rparr>\<rparr>"
  let ?c1 = "\<lparr>card_id = 1, face = 7, suit = 1, area = ''stock'',
               position = \<lparr>pos_x = 30, pos_y = 0\<rparr>\<rparr>"
  let ?c2 = "\<lparr>card_id = 2, face = 8, suit = 2, area = ''discard'',
               position = \<lparr>pos_x = 50, pos_y = 0\<rparr>\<rparr>"
  let ?d0 = "\<lparr>card_id = 0, face = 5, suit = 0, area = ''main'', position = origin\<rparr>"
  have v0: "cardViewOf example_controller 0 = Some 0"
    and v1: "cardViewOf example_controller 1 = Some 1"
    and v2: "cardViewOf example_controller 2 = Some 2"
    by (simp_all add: example_controller_def)
  have g0: "getCardById (model example_controller) 0 = Some ?c0"
    and g1: "getCardById (model example_controller) 1 = Some ?c1"
    and g2: "getCardById (model example_controller) 2 = Some ?c2"
    by (simp_all add: example_controller_def example_model_def getCardById_def)
  have p0: "parent example_controller 0 = getNodeForArea (area ?c0)"
    and p1: "parent example_controller 1 = getNodeForArea (area ?c1)"
    and p2: "parent example_controller 2 = getNodeForArea (area ?c2)"
    by (simp_all add: example_controller_def parent_def getNodeForArea_def)
  have w0: "cardViewOf (two_card_game 5 6) 0 = Some 0"
    and h0: "getCardById (model (two_card_game 5 6)) 0 = Some ?d0"
    and q0: "parent (two_card_game 5 6) 0 = getNodeForArea (area ?d0)"
    by (simp_all add: two_card_game_def getCardById_def parent_def getNodeForArea_def)
  have m0: "isMatch example_controller 0 = Inr False"
    by (simp add: isMatch_def example_controller_def example_model_def getCardById_def)
  have m1: "isMatch (two_card_game 5 6) 0 = Inr True"
    by (simp add: isMatch_def two_card_game_def getCardById_def)
  have a: "onCardClick (\<lambda>n. True) 1 example_controller = Inr example_controller"
    using move_legality [OF v1 g1 p1, of "\<lambda>n. True"] by simp
  have b: "onCardClick (\<lambda>n. False) 1 example_controller =
             Inr (moveCardToDiscard 1 example_controller) \<and>
           getCardById (model (moveCardToDiscard 1 example_controller)) 1 =
             Some \<lparr>card_id = 1, face = 7, suit = 1, area = ''discard'', position = origin\<rparr>"
    using move_legality [OF v1 g1 p1, of "\<lambda>n. False"] by simp
  have c: "onCardClick (\<lambda>n. False) 2 example_controller = Inr example_controller"
    using move_legality [OF v2 g2 p2, of "\<lambda>n. False"] by simp
  have d: "onCardClick (\<lambda>n. False) 0 example_controller = Inr example_controller"
    using move_legality [OF v0 g0 p0, of "\<lambda>n. False"] m0 by simp
  have e: "onCardClick (\<lambda>n. False) 0 (two_card_game 5 6) =
             Inr (moveCardToDiscard 0 (two_card_game 5 6))"
    using move_legality [OF w0 h0 q0, of "\<lambda>n. False"] m1 by simp
  show ?thesis using v1 g1 p1 a b c d e m0 m1 by simp
qed

end
